theory Spec2Isabelle
  imports Main
begin

section \<open>The code editor of the coding test (components/test/CodeEditor.tsx)\<close>

text \<open>
  The component keeps six pieces of React state (\<open>language\<close>, \<open>code\<close>,
  \<open>isSubmitting\<close>, \<open>showErrorDialog\<close>, \<open>showReattemptDialog\<close>,
  \<open>submissionResponse\<close>), one effect with the dependency array
  \<open>[initialStoredCode, language]\<close>, and five handlers. A handler is a function
  from the state to the new state and the list of calls it makes to its collaborators
  (\<open>fetch\<close>, \<open>showToast\<close>, \<open>markTestAsCompleted\<close>, \<open>router.push\<close>,
  \<open>onQuestionChange\<close>, \<open>onTestComplete\<close>), in the order of the calls.
  The asynchronous \<open>handleSubmit\<close> is split at its \<open>await fetch\<close>: the part before
  it, and the part that runs when the request has settled. The second part reads
  \<open>language\<close> and \<open>testStatus\<close> from the render in which the handler was created and
  applies its state setters to the state of the moment.
\<close>

subsection \<open>Languages and default templates\<close>

datatype Language = python | javascript | java | cpp

fun defaultCode :: "Language \<Rightarrow> string" where
  "defaultCode python = ''# Write your Python code here''"
| "defaultCode javascript = ''// Write your JavaScript code here''"
| "defaultCode java = ''// Write your Java code here''"
| "defaultCode cpp = ''// Write your C++ code here''"

subsection \<open>JavaScript values\<close>

text \<open>
  The response body is typed \<open>any\<close>: whatever \<open>response.json()\<close> gives. An object is
  its list of properties, the first binding of a name being its value. Numbers are
  integers here; the component only tests a value for truthiness.
\<close>

datatype jsval =
    JUndefined
  | JNull
  | JBool bool
  | JNum int
  | JStr string
  | JArr "jsval list"
  | JObj "(string \<times> jsval) list"

fun truthy :: "jsval \<Rightarrow> bool" where
  "truthy JUndefined = False"
| "truthy JNull = False"
| "truthy (JBool b) = b"
| "truthy (JNum n) = (n \<noteq> 0)"
| "truthy (JStr s) = (s \<noteq> [])"
| "truthy (JArr vs) = True"
| "truthy (JObj kvs) = True"

fun nullish :: "jsval \<Rightarrow> bool" where
  "nullish JUndefined = True"
| "nullish JNull = True"
| "nullish v = False"

text \<open>
  \<open>data.name\<close> for a value that is not nullish and one of the names \<open>error\<close>,
  \<open>isComplete\<close>, \<open>nextQuestion\<close>, which no string, number, boolean or array has.
  On a nullish value the access throws (see \<open>submit_try\<close>).
\<close>

fun member :: "jsval \<Rightarrow> string \<Rightarrow> jsval" where
  "member (JObj kvs) k = (case map_of kvs k of None \<Rightarrow> JUndefined | Some v \<Rightarrow> v)"
| "member v k = JUndefined"

subsection \<open>Props, context and state\<close>

text \<open>\<open>initialStoredCode?: string | null\<close>\<close>

datatype StoredCode = Absent | NullCode | Text string

text \<open>\<open>initialStoredCode || d\<close>: the stored code when it is truthy, that is a non-empty string.\<close>

fun stored_or :: "StoredCode \<Rightarrow> string \<Rightarrow> string" where
  "stored_or (Text s) d = (if s = [] then d else s)"
| "stored_or Absent d = d"
| "stored_or NullCode d = d"

record Props =
  currentQuestionId :: string
  initialStoredCode :: StoredCode

record TestStatus =
  attemptsRemaining :: int

text \<open>
  \<open>effectDeps\<close> is React's memory of the dependency array of the effect at its last run
  (\<open>None\<close> before the first one).
\<close>

record EditorState =
  language :: Language
  code :: string
  isSubmitting :: bool
  showErrorDialog :: bool
  showReattemptDialog :: bool
  submissionResponse :: jsval
  effectDeps :: "(StoredCode \<times> Language) option"

text \<open>The calls a handler makes to its collaborators.\<close>

datatype call =
    Fetch string string Language
  | ShowToast string string
  | MarkTestAsCompleted
  | RouterPush string
  | OnQuestionChange jsval
  | OnTestComplete bool string

text \<open>
  How the request settles: \<open>fetch\<close> rejects, or it gives a response with its \<open>ok\<close> flag
  and what \<open>response.json()\<close> gives (\<open>None\<close> when that rejects).
\<close>

datatype fetch_result =
    FetchRejected
  | FetchResponse bool "jsval option"

datatype exn = FetchFailed | JsonFailed | TypeError | Error jsval

subsection \<open>Mount and the effect\<close>

definition initialState :: "Props \<Rightarrow> EditorState" where
  "initialState p =
     \<lparr> language = python,
       code = stored_or (initialStoredCode p) (defaultCode python),
       isSubmitting = False,
       showErrorDialog = False,
       showReattemptDialog = False,
       submissionResponse = JNull,
       effectDeps = None \<rparr>"

text \<open>
  The effect of lines 64-67, run after a render: when a dependency differs from the one of
  its last run, it sets \<open>code\<close> to \<open>initialStoredCode || defaultCode[language]\<close>.
\<close>

definition useEffect_code :: "Props \<Rightarrow> EditorState \<Rightarrow> EditorState" where
  "useEffect_code p st =
     (if effectDeps st = Some (initialStoredCode p, language st) then st
      else st\<lparr> code := stored_or (initialStoredCode p) (defaultCode (language st)),
               effectDeps := Some (initialStoredCode p, language st) \<rparr>)"

definition mount :: "Props \<Rightarrow> EditorState" where
  "mount p = useEffect_code p (initialState p)"

subsection \<open>Handlers\<close>

definition handleLanguageChange :: "Language \<Rightarrow> EditorState \<Rightarrow> EditorState" where
  "handleLanguageChange v st = st\<lparr> language := v, code := defaultCode v \<rparr>"

definition handleEditorChange :: "string option \<Rightarrow> EditorState \<Rightarrow> EditorState" where
  "handleEditorChange v st = (case v of None \<Rightarrow> st | Some s \<Rightarrow> st\<lparr> code := s \<rparr>)"

text \<open>The user picks a language in the select: the handler, then the render and its effect.\<close>

definition selectLanguage :: "Props \<Rightarrow> Language \<Rightarrow> EditorState \<Rightarrow> EditorState" where
  "selectLanguage p v st = useEffect_code p (handleLanguageChange v st)"

text \<open>The user types in the editor: the handler, then the render and its effect.\<close>

definition editCode :: "Props \<Rightarrow> string \<Rightarrow> EditorState \<Rightarrow> EditorState" where
  "editCode p s st = useEffect_code p (handleEditorChange (Some s) st)"

text \<open>\<open>handleSubmit\<close> up to its \<open>await fetch\<close> (lines 81-93).\<close>

definition handleSubmit_begin :: "Props \<Rightarrow> EditorState \<Rightarrow> EditorState \<times> call list" where
  "handleSubmit_begin p st =
     (st\<lparr> isSubmitting := True \<rparr>,
      [Fetch (currentQuestionId p) (code st) (language st)])"

text \<open>
  The rest of the \<open>try\<close> block (lines 95-121). \<open>clicked\<close> is the state of the render in which
  \<open>handleSubmit\<close> was created, \<open>ts\<close> the test status of that render, \<open>now\<close> the state
  when the request has settled. Every \<open>throw\<close> comes before the first call and the
  first setter of the block.
\<close>

definition submit_try ::
  "TestStatus \<Rightarrow> EditorState \<Rightarrow> fetch_result \<Rightarrow> EditorState \<Rightarrow> exn + (EditorState \<times> call list)" where
  "submit_try ts clicked r now =
     (case r of
        FetchRejected \<Rightarrow> Inl FetchFailed
      | FetchResponse ok body \<Rightarrow>
          if \<not> ok then Inl (Error (JStr ''Failed to submit code''))
          else (case body of
                  None \<Rightarrow> Inl JsonFailed
                | Some data \<Rightarrow>
                    if nullish data then Inl TypeError
                    else if truthy (member data ''error'') then Inl (Error (member data ''error''))
                    else Inr
                      (if truthy (member data ''isComplete'') then
                         (if 0 < attemptsRemaining ts then
                            (now\<lparr> submissionResponse := data, showReattemptDialog := True \<rparr>,
                             [ShowToast ''Code submitted successfully'' ''default''])
                          else
                            (now,
                             [ShowToast ''Code submitted successfully'' ''default'',
                              MarkTestAsCompleted,
                              RouterPush ''/test-complete'']))
                       else if truthy (member data ''nextQuestion'') then
                         (now\<lparr> code := defaultCode (language clicked) \<rparr>,
                          [ShowToast ''Code submitted successfully'' ''default'',
                           OnQuestionChange (member data ''nextQuestion'')])
                       else
                         (now, [ShowToast ''Code submitted successfully'' ''default'']))))"

text \<open>\<open>handleSubmit\<close> after the \<open>await\<close>: the \<open>try\<close> block, \<open>catch\<close> (lines 122-124), \<open>finally\<close> (lines 125-127).\<close>

definition handleSubmit_resume ::
  "TestStatus \<Rightarrow> EditorState \<Rightarrow> fetch_result \<Rightarrow> EditorState \<Rightarrow> EditorState \<times> call list" where
  "handleSubmit_resume ts clicked r now =
     (case (case submit_try ts clicked r now of
              Inl e \<Rightarrow>
                (now\<lparr> showErrorDialog := True \<rparr>,
                 [ShowToast ''Failed to submit code. Please try again.'' ''destructive''])
            | Inr res \<Rightarrow> res) of
        (st, calls) \<Rightarrow> (st\<lparr> isSubmitting := False \<rparr>, calls))"

text \<open>
  One submission with nothing happening while the request is in flight: both parts of
  \<open>handleSubmit\<close>, with the calls of both.
\<close>

definition handleSubmit ::
  "Props \<Rightarrow> TestStatus \<Rightarrow> fetch_result \<Rightarrow> EditorState \<Rightarrow> EditorState \<times> call list" where
  "handleSubmit p ts r clicked =
     (case handleSubmit_begin p clicked of
        (st1, calls1) \<Rightarrow>
          (case handleSubmit_resume ts clicked r st1 of
             (st2, calls2) \<Rightarrow> (st2, calls1 @ calls2)))"

text \<open>
  Modelled from the spec: the \<open>Button\<close> component (\<open>@/components/ui/button\<close>) is not
  among the sources; the editor only passes it \<open>onClick={handleSubmit}\<close> and
  \<open>disabled={isSubmitting}\<close> (lines 174-176). What a disabled button does with a click
  is taken from the specification of the submit operation: "Guard: if already
  submitting, no-op", "a second submit while submitting=true must be rejected or
  ignored, never queued". Otherwise the click starts \<open>handleSubmit\<close>.
\<close>

definition submitButton_click :: "Props \<Rightarrow> EditorState \<Rightarrow> EditorState \<times> call list" where
  "submitButton_click p st = (if isSubmitting st then (st, []) else handleSubmit_begin p st)"

definition handleReattempt :: "EditorState \<Rightarrow> EditorState \<times> call list" where
  "handleReattempt st = (st\<lparr> showReattemptDialog := False \<rparr>, [OnTestComplete True (code st)])"

definition handleFinishTest :: "EditorState \<Rightarrow> EditorState \<times> call list" where
  "handleFinishTest st = (st, [MarkTestAsCompleted, RouterPush ''/test-complete''])"

subsection \<open>What the user can do while a request is in flight\<close>

text \<open>
  No dialog is open then. The editor (\<open>onChange={handleEditorChange}\<close>), the language
  select (\<open>onValueChange\<close> calls \<open>handleLanguageChange\<close>) and the submit button are on
  the screen; each event is followed by the render and its effect.
\<close>

datatype ui_event =
    EditorChange "string option"
  | LanguageSelect Language
  | SubmitClick

fun dispatch :: "Props \<Rightarrow> ui_event \<Rightarrow> EditorState \<Rightarrow> EditorState \<times> call list" where
  "dispatch p (EditorChange v) st = (useEffect_code p (handleEditorChange v st), [])"
| "dispatch p (LanguageSelect v) st = (selectLanguage p v st, [])"
| "dispatch p SubmitClick st =
     (case submitButton_click p st of (st', calls) \<Rightarrow> (useEffect_code p st', calls))"

fun run :: "Props \<Rightarrow> ui_event list \<Rightarrow> EditorState \<Rightarrow> EditorState \<times> call list" where
  "run p [] st = (st, [])"
| "run p (e # es) st =
     (case dispatch p e st of
        (st', calls) \<Rightarrow> (case run p es st' of (st'', calls') \<Rightarrow> (st'', calls @ calls')))"

subsection \<open>A session used in the examples\<close>

text \<open>
  Question \<open>q1\<close>, no stored code; the user has typed \<open>print(1)\<close> with python selected,
  and then clicks the submit button.
\<close>

definition props_q1 :: Props where
  "props_q1 = \<lparr> currentQuestionId = ''q1'', initialStoredCode = Absent \<rparr>"

definition typed_print :: EditorState where
  "typed_print = editCode props_q1 ''print(1)'' (mount props_q1)"

definition in_flight :: EditorState where
  "in_flight = fst (submitButton_click props_q1 typed_print)"

section \<open>Properties\<close>

text \<open>
  C9. The \<open>useState\<close> initialisers of lines 57-58 give python as the language and, as
  \<open>code\<close>, the caller's \<open>initialStoredCode\<close> when that is a non-empty string, and the
  default template of python when it is absent, null or the empty string. The effect
  that runs at mount leaves that value: the mounted editor holds the same code.
\<close>

theorem mount_code:
  "code (initialState (p\<lparr> initialStoredCode := Text (c # cs) \<rparr>)) = c # cs
   \<and> code (initialState (p\<lparr> initialStoredCode := Text [] \<rparr>)) = defaultCode python
   \<and> code (initialState (p\<lparr> initialStoredCode := NullCode \<rparr>)) = defaultCode python
   \<and> code (initialState (p\<lparr> initialStoredCode := Absent \<rparr>)) = defaultCode python
   \<and> language (initialState p) = python
   \<and> code (mount p) = code (initialState p)
   \<and> code (mount (p\<lparr> initialStoredCode := Text (c # cs) \<rparr>)) = c # cs
   \<and> code (mount (p\<lparr> initialStoredCode := Text [] \<rparr>)) = defaultCode python
   \<and> code (mount (p\<lparr> initialStoredCode := NullCode \<rparr>)) = defaultCode python
   \<and> code (mount (p\<lparr> initialStoredCode := Absent \<rparr>)) = defaultCode python
   \<and> language (mount p) = python"
  by (simp add: mount_def useEffect_code_def initialState_def)


subsection \<open>Language change\<close>

text \<open>The handler by itself: the language is the chosen one and the code is its template.\<close>

lemma handleLanguageChange_resets:
  "language (handleLanguageChange v st) = v \<and> code (handleLanguageChange v st) = defaultCode v"
  by (simp add: handleLanguageChange_def)

text \<open>
  With the render that follows: the effect depends on \<open>language\<close>, so it runs again
  whenever the chosen language differs from the one of its last run, and then puts a
  non-empty stored code back into the editor.
\<close>

lemma selectLanguage_code:
  "code (selectLanguage p v st) =
     (if effectDeps st = Some (initialStoredCode p, v) then defaultCode v
      else stored_or (initialStoredCode p) (defaultCode v))"
  by (simp add: selectLanguage_def useEffect_code_def handleLanguageChange_def)

lemma selectLanguage_language: "language (selectLanguage p v st) = v"
  by (simp add: selectLanguage_def useEffect_code_def handleLanguageChange_def)

lemma selectLanguage_no_stored_code:
  "stored_or (initialStoredCode p) (defaultCode v) = defaultCode v \<Longrightarrow>
   code (selectLanguage p v st) = defaultCode v"
  by (simp add: selectLanguage_code)

text \<open>
  C1. The component is mounted with \<open>initialStoredCode = "print(1)"\<close> and the user picks
  java. \<open>handleLanguageChange\<close> sets the language to java and the code to java's
  template; the effect of lines 64-67 then runs, because \<open>language\<close> is one of its
  dependencies, and sets the code back to \<open>"print(1)"\<close>. The editor ends with java
  selected and the stored python text, not java's template.
\<close>

theorem language_change_keeps_stored_code:
  "language (selectLanguage
      \<lparr> currentQuestionId = ''q1'', initialStoredCode = Text ''print(1)'' \<rparr> java
      (mount \<lparr> currentQuestionId = ''q1'', initialStoredCode = Text ''print(1)'' \<rparr>)) = java
   \<and> code (handleLanguageChange java
      (mount \<lparr> currentQuestionId = ''q1'', initialStoredCode = Text ''print(1)'' \<rparr>))
      = ''// Write your Java code here''
   \<and> code (selectLanguage
      \<lparr> currentQuestionId = ''q1'', initialStoredCode = Text ''print(1)'' \<rparr> java
      (mount \<lparr> currentQuestionId = ''q1'', initialStoredCode = Text ''print(1)'' \<rparr>))
      = ''print(1)''"
  by (simp add: selectLanguage_def useEffect_code_def handleLanguageChange_def mount_def
      initialState_def)


subsection \<open>The outcomes of a submission\<close>

text \<open>What \<open>handleSubmit\<close> does after the \<open>await\<close>, one lemma for each way through it.\<close>

lemma resume_fetch_rejected:
  "handleSubmit_resume ts clicked FetchRejected now =
     (now\<lparr> showErrorDialog := True, isSubmitting := False \<rparr>,
      [ShowToast ''Failed to submit code. Please try again.'' ''destructive''])"
  by (simp add: handleSubmit_resume_def submit_try_def)

lemma resume_not_ok:
  "handleSubmit_resume ts clicked (FetchResponse False body) now =
     (now\<lparr> showErrorDialog := True, isSubmitting := False \<rparr>,
      [ShowToast ''Failed to submit code. Please try again.'' ''destructive''])"
  by (simp add: handleSubmit_resume_def submit_try_def)

lemma resume_json_rejected:
  "handleSubmit_resume ts clicked (FetchResponse True None) now =
     (now\<lparr> showErrorDialog := True, isSubmitting := False \<rparr>,
      [ShowToast ''Failed to submit code. Please try again.'' ''destructive''])"
  by (simp add: handleSubmit_resume_def submit_try_def)

lemma resume_nullish_body:
  "nullish data \<Longrightarrow>
   handleSubmit_resume ts clicked (FetchResponse True (Some data)) now =
     (now\<lparr> showErrorDialog := True, isSubmitting := False \<rparr>,
      [ShowToast ''Failed to submit code. Please try again.'' ''destructive''])"
  by (simp add: handleSubmit_resume_def submit_try_def)

lemma resume_business_error:
  "truthy (member data ''error'') \<Longrightarrow>
   handleSubmit_resume ts clicked (FetchResponse True (Some data)) now =
     (now\<lparr> showErrorDialog := True, isSubmitting := False \<rparr>,
      [ShowToast ''Failed to submit code. Please try again.'' ''destructive''])"
  by (simp add: handleSubmit_resume_def submit_try_def)

lemma resume_complete_reattempt:
  "\<not> nullish data \<Longrightarrow> \<not> truthy (member data ''error'') \<Longrightarrow>
   truthy (member data ''isComplete'') \<Longrightarrow> 0 < attemptsRemaining ts \<Longrightarrow>
   handleSubmit_resume ts clicked (FetchResponse True (Some data)) now =
     (now\<lparr> submissionResponse := data, showReattemptDialog := True, isSubmitting := False \<rparr>,
      [ShowToast ''Code submitted successfully'' ''default''])"
  by (simp add: handleSubmit_resume_def submit_try_def)

lemma resume_complete_final:
  "\<not> nullish data \<Longrightarrow> \<not> truthy (member data ''error'') \<Longrightarrow>
   truthy (member data ''isComplete'') \<Longrightarrow> \<not> 0 < attemptsRemaining ts \<Longrightarrow>
   handleSubmit_resume ts clicked (FetchResponse True (Some data)) now =
     (now\<lparr> isSubmitting := False \<rparr>,
      [ShowToast ''Code submitted successfully'' ''default'',
       MarkTestAsCompleted,
       RouterPush ''/test-complete''])"
  by (simp add: handleSubmit_resume_def submit_try_def)

lemma resume_advance:
  "\<not> nullish data \<Longrightarrow> \<not> truthy (member data ''error'') \<Longrightarrow>
   \<not> truthy (member data ''isComplete'') \<Longrightarrow> truthy (member data ''nextQuestion'') \<Longrightarrow>
   handleSubmit_resume ts clicked (FetchResponse True (Some data)) now =
     (now\<lparr> code := defaultCode (language clicked), isSubmitting := False \<rparr>,
      [ShowToast ''Code submitted successfully'' ''default'',
       OnQuestionChange (member data ''nextQuestion'')])"
  by (simp add: handleSubmit_resume_def submit_try_def)

lemma resume_neither:
  "\<not> nullish data \<Longrightarrow> \<not> truthy (member data ''error'') \<Longrightarrow>
   \<not> truthy (member data ''isComplete'') \<Longrightarrow> \<not> truthy (member data ''nextQuestion'') \<Longrightarrow>
   handleSubmit_resume ts clicked (FetchResponse True (Some data)) now =
     (now\<lparr> isSubmitting := False \<rparr>,
      [ShowToast ''Code submitted successfully'' ''default''])"
  by (simp add: handleSubmit_resume_def submit_try_def)

text \<open>A submission with nothing in between, in terms of its second part.\<close>

lemma handleSubmit_unfold:
  "handleSubmit p ts r clicked =
     (fst (handleSubmit_resume ts clicked r (clicked\<lparr> isSubmitting := True \<rparr>)),
      Fetch (currentQuestionId p) (code clicked) (language clicked)
        # snd (handleSubmit_resume ts clicked r (clicked\<lparr> isSubmitting := True \<rparr>)))"
  by (simp add: handleSubmit_def handleSubmit_begin_def split: prod.split)

text \<open>The second part never touches the language or the memory of the effect.\<close>

lemma resume_language:
  "language (fst (handleSubmit_resume ts clicked r now)) = language now"
  by (simp add: handleSubmit_resume_def submit_try_def
      split: fetch_result.split option.split)

lemma resume_effectDeps:
  "effectDeps (fst (handleSubmit_resume ts clicked r now)) = effectDeps now"
  by (simp add: handleSubmit_resume_def submit_try_def
      split: fetch_result.split option.split)

lemma useEffect_code_in_sync:
  "effectDeps st = Some (initialStoredCode p, language st) \<Longrightarrow> useEffect_code p st = st"
  by (simp add: useEffect_code_def)

text \<open>
  C3. Whatever the request gives (a rejected \<open>fetch\<close>, a response that is not ok, a body
  that does not parse, an error field, the end of the test, a next question or none of
  these), and whatever happened to the state while it was in flight, the second part of
  \<open>handleSubmit\<close> ends with \<open>isSubmitting\<close> false: the setter of the \<open>finally\<close> block is
  the last update on every path.
\<close>

theorem submitting_flag_cleared:
  "isSubmitting (fst (handleSubmit_resume ts clicked r now)) = False
   \<and> isSubmitting (fst (handleSubmit p ts r clicked)) = False"
  by (simp add: handleSubmit_unfold)
     (simp add: handleSubmit_resume_def split: prod.split sum.split)


lemma typed_print_eq:
  "typed_print =
     \<lparr> language = python, code = ''print(1)'', isSubmitting = False,
       showErrorDialog = False, showReattemptDialog = False,
       submissionResponse = JNull, effectDeps = Some (Absent, python) \<rparr>"
  by (simp add: typed_print_def props_q1_def editCode_def handleEditorChange_def mount_def
      useEffect_code_def initialState_def)

lemma in_flight_eq:
  "in_flight =
     \<lparr> language = python, code = ''print(1)'', isSubmitting = True,
       showErrorDialog = False, showReattemptDialog = False,
       submissionResponse = JNull, effectDeps = Some (Absent, python) \<rparr>"
  by (simp add: in_flight_def submitButton_click_def handleSubmit_begin_def typed_print_eq)

subsection \<open>Submitting while a submission is in flight\<close>

text \<open>
  \<open>handleSubmit\<close> has no test of \<open>isSubmitting\<close> of its own: whenever it runs, it
  issues the request. What keeps a second submission out is the button.
\<close>

lemma handleSubmit_begin_calls:
  "snd (handleSubmit_begin p st) = [Fetch (currentQuestionId p) (code st) (language st)]"
  by (simp add: handleSubmit_begin_def)

text \<open>Every click on the button leaves \<open>isSubmitting\<close> true, whether it starts a submission or not.\<close>

lemma click_sets_flag: "isSubmitting (fst (submitButton_click p st))"
  by (simp add: submitButton_click_def handleSubmit_begin_def)

text \<open>The editor and the select do not touch \<open>isSubmitting\<close>, and they call nothing.\<close>

lemma useEffect_code_isSubmitting:
  "isSubmitting (useEffect_code p st) = isSubmitting st"
  by (simp add: useEffect_code_def)

lemma dispatch_while_submitting:
  assumes "isSubmitting st"
  shows "isSubmitting (fst (dispatch p e st)) \<and> snd (dispatch p e st) = []"
proof (cases e)
  case (EditorChange v)
  with assms show ?thesis
    by (simp add: useEffect_code_isSubmitting handleEditorChange_def split: option.split)
next
  case (LanguageSelect v)
  with assms show ?thesis
    by (simp add: selectLanguage_def useEffect_code_isSubmitting handleLanguageChange_def)
next
  case SubmitClick
  with assms show ?thesis
    by (simp add: submitButton_click_def useEffect_code_isSubmitting)
qed

lemma no_second_request_while_in_flight:
  "isSubmitting st \<Longrightarrow> isSubmitting (fst (run p es st)) \<and> snd (run p es st) = []"
proof (induction es arbitrary: st)
  case Nil
  then show ?case by simp
next
  case (Cons e es)
  from Cons.prems have step: "isSubmitting (fst (dispatch p e st))" "snd (dispatch p e st) = []"
    using dispatch_while_submitting by blast+
  from Cons.IH [OF step(1)] step(2) show ?case
    by (simp add: split_beta)
qed

text \<open>
  After every render the memory of the effect holds the dependencies of that render, so
  a render with nothing changed runs no effect.
\<close>

lemma useEffect_code_sync:
  "effectDeps (useEffect_code p st) = Some (initialStoredCode p, language (useEffect_code p st))"
  by (simp add: useEffect_code_def)

lemma dispatch_sync:
  "effectDeps (fst (dispatch p e st)) = Some (initialStoredCode p, language (fst (dispatch p e st)))"
  by (cases e) (simp_all add: useEffect_code_sync selectLanguage_def split: prod.split)

lemma click_while_submitting:
  assumes "isSubmitting st" and "effectDeps st = Some (initialStoredCode p, language st)"
  shows "dispatch p SubmitClick st = (st, [])"
  using assms by (simp add: submitButton_click_def useEffect_code_in_sync)

text \<open>
  While a request is in flight the clicks on the submit button can be struck out of
  whatever the user does: the state at the end is the same.
\<close>

lemma clicks_change_nothing:
  assumes "isSubmitting st" and "effectDeps st = Some (initialStoredCode p, language st)"
  shows "fst (run p es st) = fst (run p (filter (\<lambda>e. e \<noteq> SubmitClick) es) st)"
  using assms
proof (induction es arbitrary: st)
  case Nil
  show ?case by simp
next
  case (Cons e es)
  show ?case
  proof (cases "e = SubmitClick")
    case True
    from Cons.prems have "dispatch p SubmitClick st = (st, [])"
      by (rule click_while_submitting)
    with True Cons.IH [OF Cons.prems] show ?thesis
      by simp
  next
    case False
    have busy: "isSubmitting (fst (dispatch p e st))"
      using dispatch_while_submitting [OF Cons.prems(1)] by simp
    from Cons.IH [OF busy dispatch_sync] False show ?thesis
      by (simp add: split_beta)
  qed
qed

text \<open>
  C2. While \<open>isSubmitting\<close> is true (in a rendered state), a click on the submit button
  is a no-op: nothing is called and the state is what it was. Over the whole time the
  request is in flight, whatever the user types, selects and clicks, no call is made,
  so no second request, \<open>isSubmitting\<close> stays true, and the state at the end is the
  one reached without the clicks. The flag is true after any click, so a second click
  right after a first one is such a no-op.
\<close>

theorem second_submit_is_noop:
  assumes "isSubmitting st"
    and "effectDeps st = Some (initialStoredCode p, language st)"
  shows "submitButton_click p st = (st, [])
         \<and> dispatch p SubmitClick st = (st, [])
         \<and> snd (run p es st) = []
         \<and> isSubmitting (fst (run p es st))
         \<and> fst (run p es st) = fst (run p (filter (\<lambda>e. e \<noteq> SubmitClick) es) st)
         \<and> submitButton_click p (fst (submitButton_click p st'))
             = (fst (submitButton_click p st'), [])"
proof -
  have "submitButton_click p st = (st, [])"
    using assms(1) by (simp add: submitButton_click_def)
  moreover have "dispatch p SubmitClick st = (st, [])"
    using assms by (rule click_while_submitting)
  moreover have "snd (run p es st) = []" "isSubmitting (fst (run p es st))"
    using no_second_request_while_in_flight [OF assms(1)] by simp_all
  moreover have "fst (run p es st) = fst (run p (filter (\<lambda>e. e \<noteq> SubmitClick) es) st)"
    using assms by (rule clicks_change_nothing)
  moreover have "submitButton_click p (fst (submitButton_click p st'))
      = (fst (submitButton_click p st'), [])"
    using click_sets_flag by (simp add: submitButton_click_def)
  ultimately show ?thesis by simp
qed

theorem second_submit_is_noop_witness:
  "isSubmitting in_flight
   \<and> effectDeps in_flight = Some (initialStoredCode props_q1, language in_flight)
   \<and> submitButton_click props_q1 in_flight = (in_flight, [])
   \<and> run props_q1 [SubmitClick, EditorChange (Some ''print(2)''), SubmitClick] in_flight
       = (in_flight\<lparr> code := ''print(2)'' \<rparr>, [])"
proof -
  have busy: "isSubmitting in_flight"
    by (simp add: in_flight_eq)
  have sync: "effectDeps in_flight = Some (initialStoredCode props_q1, language in_flight)"
    by (simp add: in_flight_eq props_q1_def)
  note noop = second_submit_is_noop [OF busy sync,
      where es = "[SubmitClick, EditorChange (Some ''print(2)''), SubmitClick]"
        and st' = typed_print]
  have click: "submitButton_click props_q1 in_flight = (in_flight, [])"
    using noop by blast
  have calls: "snd (run props_q1 [SubmitClick, EditorChange (Some ''print(2)''), SubmitClick]
      in_flight) = []"
    using noop by blast
  have same: "fst (run props_q1 [SubmitClick, EditorChange (Some ''print(2)''), SubmitClick] in_flight)
      = fst (run props_q1 (filter (\<lambda>e. e \<noteq> SubmitClick)
               [SubmitClick, EditorChange (Some ''print(2)''), SubmitClick]) in_flight)"
    using noop by blast
  have "fst (run props_q1 [SubmitClick, EditorChange (Some ''print(2)''), SubmitClick] in_flight)
      = fst (run props_q1 [EditorChange (Some ''print(2)'')] in_flight)"
    using same by simp
  also have "\<dots> = in_flight\<lparr> code := ''print(2)'' \<rparr>"
    by (simp add: in_flight_eq props_q1_def handleEditorChange_def useEffect_code_def)
  finally have state:
    "fst (run props_q1 [SubmitClick, EditorChange (Some ''print(2)''), SubmitClick] in_flight)
      = in_flight\<lparr> code := ''print(2)'' \<rparr>" .
  from busy sync click calls state show ?thesis
    by (simp only: prod_eq_iff fst_conv snd_conv simp_thms)
qed

subsection \<open>Failure\<close>

text \<open>
  C4. When \<open>fetch\<close> rejects, when the response is not ok, and when the response is ok and
  its body carries a non-empty string as \<open>error\<close>, the second part of \<open>handleSubmit\<close>
  does the same thing: the failure toast, \<open>showErrorDialog\<close> set, \<open>isSubmitting\<close>
  cleared, and nothing else; \<open>code\<close> and \<open>language\<close> are what they were.
\<close>

theorem submission_failure:
  assumes "r = FetchRejected \<or> r = FetchResponse False body
           \<or> (r = FetchResponse True (Some data) \<and> member data ''error'' = JStr (c # cs))"
  shows "handleSubmit_resume ts clicked r now =
           (now\<lparr> showErrorDialog := True, isSubmitting := False \<rparr>,
            [ShowToast ''Failed to submit code. Please try again.'' ''destructive''])
         \<and> code (fst (handleSubmit_resume ts clicked r now)) = code now
         \<and> language (fst (handleSubmit_resume ts clicked r now)) = language now
         \<and> handleSubmit p ts r clicked =
           (clicked\<lparr> showErrorDialog := True, isSubmitting := False \<rparr>,
            [Fetch (currentQuestionId p) (code clicked) (language clicked),
             ShowToast ''Failed to submit code. Please try again.'' ''destructive''])"
proof -
  have failed: "handleSubmit_resume ts clicked r now' =
      (now'\<lparr> showErrorDialog := True, isSubmitting := False \<rparr>,
       [ShowToast ''Failed to submit code. Please try again.'' ''destructive''])" for now'
    using assms
    by (auto simp: resume_fetch_rejected resume_not_ok resume_business_error)
  show ?thesis
    by (simp add: handleSubmit_unfold failed)
qed

theorem submission_failure_witness:
  "member (JObj [(''error'', JStr ''timeout'')]) ''error'' = JStr ''timeout''
   \<and> handleSubmit props_q1 \<lparr> attemptsRemaining = 2 \<rparr>
        (FetchResponse True (Some (JObj [(''error'', JStr ''timeout'')]))) typed_print =
       (typed_print\<lparr> showErrorDialog := True \<rparr>,
        [Fetch ''q1'' ''print(1)'' python,
         ShowToast ''Failed to submit code. Please try again.'' ''destructive''])
   \<and> handleSubmit props_q1 \<lparr> attemptsRemaining = 2 \<rparr> (FetchResponse False None) typed_print =
       (typed_print\<lparr> showErrorDialog := True \<rparr>,
        [Fetch ''q1'' ''print(1)'' python,
         ShowToast ''Failed to submit code. Please try again.'' ''destructive''])"
proof -
  have err: "member (JObj [(''error'', JStr ''timeout'')]) ''error'' = JStr ''timeout''"
    by simp
  have business: "handleSubmit props_q1 \<lparr> attemptsRemaining = 2 \<rparr>
        (FetchResponse True (Some (JObj [(''error'', JStr ''timeout'')]))) typed_print =
       (typed_print\<lparr> showErrorDialog := True \<rparr>,
        [Fetch ''q1'' ''print(1)'' python,
         ShowToast ''Failed to submit code. Please try again.'' ''destructive''])"
    using submission_failure [where r = "FetchResponse True (Some (JObj [(''error'', JStr ''timeout'')]))"
        and data = "JObj [(''error'', JStr ''timeout'')]" and c = "CHR ''t''" and cs = "''imeout''"
        and p = props_q1 and clicked = typed_print and ts = "\<lparr> attemptsRemaining = 2 \<rparr>"]
    by (simp add: typed_print_eq props_q1_def)
  have transport: "handleSubmit props_q1 \<lparr> attemptsRemaining = 2 \<rparr> (FetchResponse False None) typed_print =
       (typed_print\<lparr> showErrorDialog := True \<rparr>,
        [Fetch ''q1'' ''print(1)'' python,
         ShowToast ''Failed to submit code. Please try again.'' ''destructive''])"
    using submission_failure [where r = "FetchResponse False None" and body = None
        and p = props_q1 and clicked = typed_print and ts = "\<lparr> attemptsRemaining = 2 \<rparr>"]
    by (simp add: typed_print_eq props_q1_def)
  from err business transport show ?thesis by simp
qed


subsection \<open>Next question\<close>

text \<open>
  The response is ok, its body has no truthy \<open>error\<close>, \<open>isComplete\<close> is not truthy and
  \<open>nextQuestion\<close> is there. Then \<open>code\<close> is set to the template of the language of the
  render in which the submission was made (the \<open>language\<close> the handler closes over;
  nothing of the next question is looked at), the handler leaves the selected language
  alone, and \<open>onQuestionChange\<close> is called once, with \<open>nextQuestion\<close>.
\<close>

lemma advance_resets_code:
  assumes "\<not> truthy (member data ''error'')"
    and "\<not> truthy (member data ''isComplete'')"
    and "truthy (member data ''nextQuestion'')"
  shows "handleSubmit_resume ts clicked (FetchResponse True (Some data)) now =
           (now\<lparr> code := defaultCode (language clicked), isSubmitting := False \<rparr>,
            [ShowToast ''Code submitted successfully'' ''default'',
             OnQuestionChange (member data ''nextQuestion'')])
         \<and> handleSubmit p ts (FetchResponse True (Some data)) clicked =
           (clicked\<lparr> code := defaultCode (language clicked), isSubmitting := False \<rparr>,
            [Fetch (currentQuestionId p) (code clicked) (language clicked),
             ShowToast ''Code submitted successfully'' ''default'',
             OnQuestionChange (member data ''nextQuestion'')])
         \<and> language (fst (handleSubmit p ts (FetchResponse True (Some data)) clicked))
             = language clicked"
proof -
  from assms(3) have obj: "\<not> nullish data"
    by (cases data) simp_all
  have advance: "handleSubmit_resume ts clicked (FetchResponse True (Some data)) now' =
      (now'\<lparr> code := defaultCode (language clicked), isSubmitting := False \<rparr>,
       [ShowToast ''Code submitted successfully'' ''default'',
        OnQuestionChange (member data ''nextQuestion'')])" for now'
    using obj assms by (rule resume_advance)
  show ?thesis
    by (simp add: handleSubmit_unfold advance)
qed

lemma advance_resets_code_example:
  "\<not> truthy (member (JObj [(''isComplete'', JBool False),
              (''nextQuestion'', JObj [(''id'', JStr ''q2'')])]) ''error'')
   \<and> \<not> truthy (member (JObj [(''isComplete'', JBool False),
              (''nextQuestion'', JObj [(''id'', JStr ''q2'')])]) ''isComplete'')
   \<and> truthy (member (JObj [(''isComplete'', JBool False),
              (''nextQuestion'', JObj [(''id'', JStr ''q2'')])]) ''nextQuestion'')
   \<and> handleSubmit props_q1 \<lparr> attemptsRemaining = 2 \<rparr>
     (FetchResponse True (Some (JObj [(''isComplete'', JBool False),
                                      (''nextQuestion'', JObj [(''id'', JStr ''q2'')])])))
     typed_print =
   (typed_print\<lparr> code := ''# Write your Python code here'' \<rparr>,
    [Fetch ''q1'' ''print(1)'' python,
     ShowToast ''Code submitted successfully'' ''default'',
     OnQuestionChange (JObj [(''id'', JStr ''q2'')])])"
  using advance_resets_code
    [where data = "JObj [(''isComplete'', JBool False),
                         (''nextQuestion'', JObj [(''id'', JStr ''q2'')])]"
       and p = props_q1 and clicked = typed_print and ts = "\<lparr> attemptsRemaining = 2 \<rparr>"]
  by (simp add: typed_print_eq props_q1_def)

text \<open>
  After the reset the render runs no effect: the dependencies of the effect are those of
  its last run, so what the handler has put in the editor stays there.
\<close>

lemma advance_no_effect:
  assumes "effectDeps now = Some (initialStoredCode p, language now)"
  shows "useEffect_code p (fst (handleSubmit_resume ts clicked r now))
         = fst (handleSubmit_resume ts clicked r now)"
  by (rule useEffect_code_in_sync) (simp add: resume_effectDeps resume_language assms)

text \<open>
  C5. The user submits \<open>print(1)\<close> with python selected and, while the request is in
  flight, picks java in the language select, which stays enabled. The response is
  \<open>{isComplete: false, nextQuestion: {id: "q2"}}\<close>. \<open>setCode(defaultCode[language])\<close>
  reads the \<open>language\<close> of the render of the click, python: the editor ends with java
  selected and python's template, not the template of the currently selected language,
  and the render that follows runs no effect that would change it.
  \<open>onQuestionChange\<close> is called once, with the next question.
\<close>

theorem advance_after_language_change_in_flight:
  "snd (submitButton_click props_q1 typed_print) = [Fetch ''q1'' ''print(1)'' python]
   \<and> language (selectLanguage props_q1 java in_flight) = java
   \<and> handleSubmit_resume \<lparr> attemptsRemaining = 2 \<rparr> typed_print
        (FetchResponse True (Some (JObj [(''isComplete'', JBool False),
                                         (''nextQuestion'', JObj [(''id'', JStr ''q2'')])])))
        (selectLanguage props_q1 java in_flight)
      = (\<lparr> language = java, code = ''# Write your Python code here'', isSubmitting = False,
           showErrorDialog = False, showReattemptDialog = False,
           submissionResponse = JNull, effectDeps = Some (Absent, java) \<rparr>,
         [ShowToast ''Code submitted successfully'' ''default'',
          OnQuestionChange (JObj [(''id'', JStr ''q2'')])])
   \<and> defaultCode java = ''// Write your Java code here''
   \<and> useEffect_code props_q1
        \<lparr> language = java, code = ''# Write your Python code here'', isSubmitting = False,
          showErrorDialog = False, showReattemptDialog = False,
          submissionResponse = JNull, effectDeps = Some (Absent, java) \<rparr>
      = \<lparr> language = java, code = ''# Write your Python code here'', isSubmitting = False,
          showErrorDialog = False, showReattemptDialog = False,
          submissionResponse = JNull, effectDeps = Some (Absent, java) \<rparr>"
  by (simp add: submitButton_click_def handleSubmit_begin_def typed_print_eq in_flight_eq
      props_q1_def selectLanguage_def handleLanguageChange_def useEffect_code_def
      handleSubmit_resume_def submit_try_def)

subsection \<open>End of the test\<close>

text \<open>
  C6. The response is ok, its body has no truthy \<open>error\<close>, \<open>isComplete\<close> is truthy and
  \<open>testStatus.attemptsRemaining\<close> is 0. Then neither dialog flag is touched, and the
  calls are the success toast, \<open>markTestAsCompleted()\<close> once and
  \<open>router.push('/test-complete')\<close> once.
\<close>

theorem complete_without_attempts:
  assumes "\<not> nullish data"
    and "\<not> truthy (member data ''error'')"
    and "truthy (member data ''isComplete'')"
    and "attemptsRemaining ts = 0"
  shows "handleSubmit_resume ts clicked (FetchResponse True (Some data)) now =
           (now\<lparr> isSubmitting := False \<rparr>,
            [ShowToast ''Code submitted successfully'' ''default'',
             MarkTestAsCompleted,
             RouterPush ''/test-complete''])
         \<and> showErrorDialog (fst (handleSubmit_resume ts clicked (FetchResponse True (Some data)) now))
             = showErrorDialog now
         \<and> showReattemptDialog (fst (handleSubmit_resume ts clicked (FetchResponse True (Some data)) now))
             = showReattemptDialog now
         \<and> handleSubmit p ts (FetchResponse True (Some data)) clicked =
           (clicked\<lparr> isSubmitting := False \<rparr>,
            [Fetch (currentQuestionId p) (code clicked) (language clicked),
             ShowToast ''Code submitted successfully'' ''default'',
             MarkTestAsCompleted,
             RouterPush ''/test-complete''])"
proof -
  from assms(4) have none_left: "\<not> 0 < attemptsRemaining ts"
    by simp
  have final: "handleSubmit_resume ts clicked (FetchResponse True (Some data)) now' =
      (now'\<lparr> isSubmitting := False \<rparr>,
       [ShowToast ''Code submitted successfully'' ''default'',
        MarkTestAsCompleted,
        RouterPush ''/test-complete''])" for now'
    using assms(1-3) none_left by (rule resume_complete_final)
  show ?thesis
    by (simp add: handleSubmit_unfold final)
qed

theorem complete_without_attempts_witness:
  "\<not> nullish (JObj [(''isComplete'', JBool True)])
   \<and> \<not> truthy (member (JObj [(''isComplete'', JBool True)]) ''error'')
   \<and> truthy (member (JObj [(''isComplete'', JBool True)]) ''isComplete'')
   \<and> attemptsRemaining \<lparr> attemptsRemaining = 0 \<rparr> = 0
   \<and> handleSubmit props_q1 \<lparr> attemptsRemaining = 0 \<rparr>
     (FetchResponse True (Some (JObj [(''isComplete'', JBool True)]))) typed_print =
   (typed_print,
    [Fetch ''q1'' ''print(1)'' python,
     ShowToast ''Code submitted successfully'' ''default'',
     MarkTestAsCompleted,
     RouterPush ''/test-complete''])
   \<and> showErrorDialog typed_print = False
   \<and> showReattemptDialog typed_print = False"
  using complete_without_attempts
    [where data = "JObj [(''isComplete'', JBool True)]"
       and p = props_q1 and clicked = typed_print and ts = "\<lparr> attemptsRemaining = 0 \<rparr>"]
  by (simp add: typed_print_eq props_q1_def)

text \<open>
  C8. The response is ok, its body has no truthy \<open>error\<close>, and both \<open>isComplete\<close> and
  \<open>nextQuestion\<close> are truthy. The \<open>if\<close> on \<open>isComplete\<close> comes first: the handler
  does what it does at the end of the test (the reattempt dialog when attempts remain,
  completion and navigation otherwise), \<open>onQuestionChange\<close> is not called, \<open>code\<close>
  is not reset, and the \<open>catch\<close> block does not run (no error dialog).
\<close>

theorem complete_wins_over_next_question:
  assumes "\<not> truthy (member data ''error'')"
    and "truthy (member data ''isComplete'')"
    and "truthy (member data ''nextQuestion'')"
  shows "handleSubmit_resume ts clicked (FetchResponse True (Some data)) now =
           (if 0 < attemptsRemaining ts
            then (now\<lparr> submissionResponse := data, showReattemptDialog := True,
                        isSubmitting := False \<rparr>,
                  [ShowToast ''Code submitted successfully'' ''default''])
            else (now\<lparr> isSubmitting := False \<rparr>,
                  [ShowToast ''Code submitted successfully'' ''default'',
                   MarkTestAsCompleted,
                   RouterPush ''/test-complete'']))
         \<and> OnQuestionChange q
             \<notin> set (snd (handleSubmit_resume ts clicked (FetchResponse True (Some data)) now))
         \<and> code (fst (handleSubmit_resume ts clicked (FetchResponse True (Some data)) now))
             = code now
         \<and> showErrorDialog (fst (handleSubmit_resume ts clicked (FetchResponse True (Some data)) now))
             = showErrorDialog now"
proof -
  from assms(3) have obj: "\<not> nullish data"
    by (cases data) simp_all
  show ?thesis
  proof (cases "0 < attemptsRemaining ts")
    case True
    with obj assms(1,2) show ?thesis
      by (simp add: resume_complete_reattempt)
  next
    case False
    with obj assms(1,2) show ?thesis
      by (simp add: resume_complete_final)
  qed
qed

theorem complete_wins_over_next_question_witness:
  "\<not> truthy (member (JObj [(''isComplete'', JBool True),
              (''nextQuestion'', JObj [(''id'', JStr ''q2'')])]) ''error'')
   \<and> truthy (member (JObj [(''isComplete'', JBool True),
              (''nextQuestion'', JObj [(''id'', JStr ''q2'')])]) ''isComplete'')
   \<and> truthy (member (JObj [(''isComplete'', JBool True),
              (''nextQuestion'', JObj [(''id'', JStr ''q2'')])]) ''nextQuestion'')
   \<and> handleSubmit_resume \<lparr> attemptsRemaining = 0 \<rparr> typed_print
     (FetchResponse True (Some (JObj [(''isComplete'', JBool True),
                                      (''nextQuestion'', JObj [(''id'', JStr ''q2'')])])))
     in_flight =
   (typed_print,
    [ShowToast ''Code submitted successfully'' ''default'',
     MarkTestAsCompleted,
     RouterPush ''/test-complete''])
   \<and> handleSubmit_resume \<lparr> attemptsRemaining = 2 \<rparr> typed_print
     (FetchResponse True (Some (JObj [(''isComplete'', JBool True),
                                      (''nextQuestion'', JObj [(''id'', JStr ''q2'')])])))
     in_flight =
   (typed_print\<lparr> submissionResponse :=
                   JObj [(''isComplete'', JBool True),
                         (''nextQuestion'', JObj [(''id'', JStr ''q2'')])],
                 showReattemptDialog := True \<rparr>,
    [ShowToast ''Code submitted successfully'' ''default''])"
  using complete_wins_over_next_question
    [where data = "JObj [(''isComplete'', JBool True),
                         (''nextQuestion'', JObj [(''id'', JStr ''q2'')])]"
       and now = in_flight and clicked = typed_print and ts = "\<lparr> attemptsRemaining = 0 \<rparr>"]
    complete_wins_over_next_question
    [where data = "JObj [(''isComplete'', JBool True),
                         (''nextQuestion'', JObj [(''id'', JStr ''q2'')])]"
       and now = in_flight and clicked = typed_print and ts = "\<lparr> attemptsRemaining = 2 \<rparr>"]
  by (simp add: typed_print_eq in_flight_eq)

text \<open>
  C10. The response is ok and its body, an object, has no truthy \<open>error\<close>, no truthy
  \<open>isComplete\<close> and no truthy \<open>nextQuestion\<close>. Then the handler shows the success toast
  and clears \<open>isSubmitting\<close>, and that is all: no dialog flag is set, neither
  \<open>onQuestionChange\<close> nor \<open>onTestComplete\<close> is called, \<open>code\<close> and \<open>language\<close> stay.
\<close>

theorem neither_complete_nor_next:
  assumes "\<not> nullish data"
    and "\<not> truthy (member data ''error'')"
    and "\<not> truthy (member data ''isComplete'')"
    and "\<not> truthy (member data ''nextQuestion'')"
  shows "handleSubmit_resume ts clicked (FetchResponse True (Some data)) now =
           (now\<lparr> isSubmitting := False \<rparr>,
            [ShowToast ''Code submitted successfully'' ''default''])
         \<and> handleSubmit p ts (FetchResponse True (Some data)) clicked =
           (clicked\<lparr> isSubmitting := False \<rparr>,
            [Fetch (currentQuestionId p) (code clicked) (language clicked),
             ShowToast ''Code submitted successfully'' ''default''])"
proof -
  have quiet: "handleSubmit_resume ts clicked (FetchResponse True (Some data)) now' =
      (now'\<lparr> isSubmitting := False \<rparr>,
       [ShowToast ''Code submitted successfully'' ''default''])" for now'
    using assms by (rule resume_neither)
  show ?thesis
    by (simp add: handleSubmit_unfold quiet)
qed

theorem neither_complete_nor_next_witness:
  "\<not> nullish (JObj [(''isComplete'', JBool False)])
   \<and> \<not> truthy (member (JObj [(''isComplete'', JBool False)]) ''error'')
   \<and> \<not> truthy (member (JObj [(''isComplete'', JBool False)]) ''isComplete'')
   \<and> \<not> truthy (member (JObj [(''isComplete'', JBool False)]) ''nextQuestion'')
   \<and> handleSubmit props_q1 \<lparr> attemptsRemaining = 2 \<rparr>
     (FetchResponse True (Some (JObj [(''isComplete'', JBool False)]))) typed_print =
   (typed_print,
    [Fetch ''q1'' ''print(1)'' python,
     ShowToast ''Code submitted successfully'' ''default''])"
  using neither_complete_nor_next
    [where data = "JObj [(''isComplete'', JBool False)]"
       and p = props_q1 and clicked = typed_print and ts = "\<lparr> attemptsRemaining = 2 \<rparr>"]
  by (simp add: typed_print_eq props_q1_def)


subsection \<open>The reattempt dialog\<close>

text \<open>
  The only place that sets \<open>showReattemptDialog\<close> is the end-of-test branch with attempts
  remaining: when the second part of \<open>handleSubmit\<close> opens the dialog, the response was
  ok with a truthy \<open>isComplete\<close> and \<open>attemptsRemaining\<close> was positive.
\<close>

lemma reattempt_dialog_opened_only_on_complete:
  assumes "showReattemptDialog (fst (handleSubmit_resume ts clicked r now))"
    and "\<not> showReattemptDialog now"
  shows "0 < attemptsRemaining ts
         \<and> (\<exists>data. r = FetchResponse True (Some data) \<and> truthy (member data ''isComplete''))"
  using assms
  by (auto simp: handleSubmit_resume_def submit_try_def
      split: fetch_result.splits option.splits if_splits)

lemma other_handlers_keep_reattempt_dialog:
  "showReattemptDialog (handleLanguageChange v st) = showReattemptDialog st"
  "showReattemptDialog (handleEditorChange e st) = showReattemptDialog st"
  "showReattemptDialog (useEffect_code p st) = showReattemptDialog st"
  "showReattemptDialog (fst (handleSubmit_begin p st)) = showReattemptDialog st"
  "showReattemptDialog (fst (handleFinishTest st)) = showReattemptDialog st"
  by (simp_all add: handleLanguageChange_def handleEditorChange_def useEffect_code_def
      handleSubmit_begin_def handleFinishTest_def split: option.split)

text \<open>
  C7, as stated, fails: \<open>handleReattempt\<close> passes the code of the editor at the time of
  the click, not the code that was submitted. The user submits \<open>print(1)\<close>, types
  \<open>print(2)\<close> while the request is in flight, the response says the test is complete
  with 2 attempts remaining, the dialog opens, and "Reattempt Test" calls
  \<open>onTestComplete(true, "print(2)")\<close>.
\<close>

theorem reattempt_after_edit_in_flight:
  "snd (submitButton_click props_q1 typed_print) = [Fetch ''q1'' ''print(1)'' python]
   \<and> showReattemptDialog
        (fst (handleSubmit_resume \<lparr> attemptsRemaining = 2 \<rparr> typed_print
               (FetchResponse True (Some (JObj [(''isComplete'', JBool True)])))
               (editCode props_q1 ''print(2)'' in_flight)))
   \<and> snd (handleReattempt
        (fst (handleSubmit_resume \<lparr> attemptsRemaining = 2 \<rparr> typed_print
               (FetchResponse True (Some (JObj [(''isComplete'', JBool True)])))
               (editCode props_q1 ''print(2)'' in_flight))))
       = [OnTestComplete True ''print(2)'']"
  by (simp add: submitButton_click_def handleSubmit_begin_def typed_print_eq in_flight_eq
      props_q1_def editCode_def handleEditorChange_def useEffect_code_def
      handleSubmit_resume_def submit_try_def handleReattempt_def)

text \<open>
  C7, amended. The response is ok, its body has no truthy \<open>error\<close>, \<open>isComplete\<close> is
  truthy and attempts remain, so the dialog is open. "Reattempt Test" closes the dialog
  and calls \<open>onTestComplete(true, code)\<close> with the code of the editor at that time; this
  is the code that was submitted when the editor was not changed after the submission.
  "Finish Test" calls \<open>markTestAsCompleted()\<close> and \<open>router.push('/test-complete')\<close> and
  does not call \<open>onTestComplete\<close>.
\<close>

theorem reattempt_dialog_choices:
  assumes "\<not> nullish data"
    and "\<not> truthy (member data ''error'')"
    and "truthy (member data ''isComplete'')"
    and "0 < attemptsRemaining ts"
  shows "showReattemptDialog (fst (handleSubmit_resume ts clicked (FetchResponse True (Some data)) now))
         \<and> handleReattempt (fst (handleSubmit_resume ts clicked (FetchResponse True (Some data)) now)) =
             (now\<lparr> submissionResponse := data, showReattemptDialog := False,
                    isSubmitting := False \<rparr>,
              [OnTestComplete True (code now)])
         \<and> snd (handleFinishTest (fst (handleSubmit_resume ts clicked (FetchResponse True (Some data)) now))) =
             [MarkTestAsCompleted, RouterPush ''/test-complete'']
         \<and> OnTestComplete b s
             \<notin> set (snd (handleFinishTest (fst (handleSubmit_resume ts clicked (FetchResponse True (Some data)) now))))
         \<and> snd (handleSubmit p ts (FetchResponse True (Some data)) clicked) =
             [Fetch (currentQuestionId p) (code clicked) (language clicked),
              ShowToast ''Code submitted successfully'' ''default'']
         \<and> snd (handleReattempt (fst (handleSubmit p ts (FetchResponse True (Some data)) clicked))) =
             [OnTestComplete True (code clicked)]
         \<and> handleReattempt st = (st\<lparr> showReattemptDialog := False \<rparr>, [OnTestComplete True (code st)])
         \<and> handleFinishTest st = (st, [MarkTestAsCompleted, RouterPush ''/test-complete''])"
proof -
  have opened: "handleSubmit_resume ts clicked (FetchResponse True (Some data)) now' =
      (now'\<lparr> submissionResponse := data, showReattemptDialog := True, isSubmitting := False \<rparr>,
       [ShowToast ''Code submitted successfully'' ''default''])" for now'
    using assms by (rule resume_complete_reattempt)
  show ?thesis
    by (simp add: handleSubmit_unfold opened handleReattempt_def handleFinishTest_def)
qed

theorem reattempt_dialog_choices_witness:
  "\<not> nullish (JObj [(''isComplete'', JBool True)])
   \<and> \<not> truthy (member (JObj [(''isComplete'', JBool True)]) ''error'')
   \<and> truthy (member (JObj [(''isComplete'', JBool True)]) ''isComplete'')
   \<and> 0 < attemptsRemaining \<lparr> attemptsRemaining = 2 \<rparr>
   \<and> snd (handleSubmit props_q1 \<lparr> attemptsRemaining = 2 \<rparr>
        (FetchResponse True (Some (JObj [(''isComplete'', JBool True)]))) typed_print) =
       [Fetch ''q1'' ''print(1)'' python,
        ShowToast ''Code submitted successfully'' ''default'']
   \<and> snd (handleReattempt (fst (handleSubmit props_q1 \<lparr> attemptsRemaining = 2 \<rparr>
        (FetchResponse True (Some (JObj [(''isComplete'', JBool True)]))) typed_print))) =
       [OnTestComplete True ''print(1)'']
   \<and> snd (handleFinishTest (fst (handleSubmit_resume \<lparr> attemptsRemaining = 2 \<rparr> typed_print
        (FetchResponse True (Some (JObj [(''isComplete'', JBool True)]))) in_flight))) =
       [MarkTestAsCompleted, RouterPush ''/test-complete'']"
  using reattempt_dialog_choices
    [where data = "JObj [(''isComplete'', JBool True)]" and now = in_flight
       and p = props_q1 and clicked = typed_print and ts = "\<lparr> attemptsRemaining = 2 \<rparr>"
       and st = in_flight]
  by (simp add: typed_print_eq props_q1_def)

end
